theory Spec2Isabelle
  imports Main "HOL-Library.AList"
begin

section \<open>The chat server of server.js: rooms, presence and event fan-out\<close>

text \<open>
  The model follows \<^verbatim>\<open>src/server.js\<close>. The two module-level variables \<^verbatim>\<open>rooms\<close> and
  \<^verbatim>\<open>onlineUsers\<close> are fields of an explicit state, next to the live sockets and the
  message collection. Every handler takes the state and returns the new state together
  with what it sent: the events it emitted, and an HTTP response or the settlement of
  its promise.

  Modelling decisions:
  \<^item> strings are \<open>string\<close>; a payload field that is missing is falsy in JavaScript as
    the empty string is, takes the same branches, and is written \<open>[]\<close> or \<open>None\<close>;
    payload values of other JSON types are not modelled;
  \<^item> the object \<^verbatim>\<open>onlineUsers\<close> is its own properties, an association list, and its
    prototype: a read goes through the prototype chain, so a room named
    \<^verbatim>\<open>constructor\<close> finds a function, and a write to \<^verbatim>\<open>__proto__\<close> replaces the
    prototype;
  \<^item> a \<^verbatim>\<open>TypeError\<close> is a value: an \<^verbatim>\<open>async\<close> handler that throws one rejects with it;
  \<^item> an \<^verbatim>\<open>async\<close> handler returns the settlement of its promise: \<open>Resolved\<close>, or
    \<open>Rejected e\<close> when an awaited store operation throws and nothing catches it;
  \<^item> whether a store operation fails, and the timestamp the store assigns, are inputs
    of the handler.
\<close>

subsection \<open>Data\<close>

type_synonym conn = nat

record message =
  m_room :: string
  m_username :: string
  m_text :: string
  createdAt :: nat

text \<open>A socket carries the two fields joinRoom sets on it and the rooms it has joined.\<close>

record sock =
  sock_username :: "string option"
  sock_room :: "string option"
  sock_rooms :: "string list"

text \<open>
  \<open>onlineUsers\<close> holds the own properties of the object of line 161, each an array of
  usernames; \<open>onlineUsersProto\<close> is \<open>None\<close> while the prototype of the object is
  \<^verbatim>\<open>Object.prototype\<close>, and \<open>Some p\<close> once an assignment to \<^verbatim>\<open>__proto__\<close> has made the
  array \<open>p\<close> the prototype.
\<close>

record state =
  rooms :: "string list"
  onlineUsers :: "(string \<times> string list) list"
  onlineUsersProto :: "string list option"
  sockets :: "(conn \<times> sock) list"
  messages :: "message list"

datatype error = StoreError | TypeError

text \<open>
  What a read of \<^verbatim>\<open>onlineUsers[room]\<close> can give: nothing, an array of usernames, a
  username (an element of an array that is the prototype), a number (the length of that
  array), or an object without array methods (an inherited function, or
  \<^verbatim>\<open>Object.prototype\<close> itself).
\<close>

datatype jsval = JUndefined | JArray "string list" | JString string | JNumber nat | JObject

datatype completion = Resolved | Rejected error

datatype payload =
    ChatHistory "message list"
  | OnlineUsers jsval
  | RoomsUpdated "string list"
  | ChatMessage string string nat
  | Typing string bool

datatype target = ToSocket conn | ToRoom string | ToRoomExcept string conn | ToAll

datatype ack = AckError string | AckSuccess "string list"

datatype emission = Emit target payload | Ack conn ack

datatype body = ErrorBody string | SuccessBody "string list"

datatype response = Response nat body

text \<open>Line 160: the rooms the server starts with. Line 185: the names DELETE refuses.\<close>

definition builtinRooms :: "string list" where
  "builtinRooms = [''main'', ''chil'', ''work'', ''fun'']"

definition protectedRooms :: "string list" where
  "protectedRooms = [''general'', ''random'', ''tech'', ''music'']"

definition init :: state where
  "init = \<lparr>rooms = builtinRooms, onlineUsers = [], onlineUsersProto = None,
            sockets = [], messages = []\<rparr>"

subsection \<open>The object onlineUsers\<close>

text \<open>
  The string-keyed properties of \<^verbatim>\<open>Object.prototype\<close> other than the accessor
  \<^verbatim>\<open>__proto__\<close>, and those \<^verbatim>\<open>Array.prototype\<close> adds (ECMAScript 2023): all functions.
\<close>

definition objectPrototypeNames :: "string list" where
  "objectPrototypeNames =
     [''constructor'', ''__defineGetter__'', ''__defineSetter__'', ''hasOwnProperty'',
      ''__lookupGetter__'', ''__lookupSetter__'', ''isPrototypeOf'', ''propertyIsEnumerable'',
      ''toString'', ''valueOf'', ''toLocaleString'']"

definition arrayPrototypeNames :: "string list" where
  "arrayPrototypeNames =
     [''at'', ''concat'', ''copyWithin'', ''fill'', ''find'', ''findIndex'', ''findLast'',
      ''findLastIndex'', ''lastIndexOf'', ''pop'', ''push'', ''reverse'', ''shift'',
      ''unshift'', ''slice'', ''sort'', ''splice'', ''includes'', ''indexOf'', ''join'',
      ''keys'', ''entries'', ''values'', ''forEach'', ''filter'', ''flat'', ''flatMap'',
      ''map'', ''every'', ''some'', ''reduce'', ''reduceRight'', ''toReversed'', ''toSorted'',
      ''toSpliced'', ''with'']"

text \<open>The key of the \<open>n\<close>-th element of an array is the decimal numeral of \<open>n\<close>.\<close>

function decimal :: "nat \<Rightarrow> string" where
  "decimal n =
     (if n < 10 then [char_of (48 + n)] else decimal (n div 10) @ [char_of (48 + n mod 10)])"
  by pat_completeness auto
termination
  by (relation "measure id") auto

declare decimal.simps [simp del]

definition arrayIndex :: "string list \<Rightarrow> string \<Rightarrow> string option" where
  "arrayIndex p key = map_option (\<lambda>i. p ! i) (find (\<lambda>i. decimal i = key) [0..<length p])"

type_synonym jsobject = "(string \<times> string list) list \<times> string list option"

definition users :: "state \<Rightarrow> jsobject" where
  "users s = (onlineUsers s, onlineUsersProto s)"

definition setUsers :: "state \<Rightarrow> jsobject \<Rightarrow> state" where
  "setUsers s obj = s\<lparr>onlineUsers := fst obj, onlineUsersProto := snd obj\<rparr>"

text \<open>
  \<^verbatim>\<open>onlineUsers[key]\<close>. The key \<^verbatim>\<open>__proto__\<close> is never an own property: it reads the
  prototype. Any other key is looked up among the own properties, then in the
  prototype: in the array, if the prototype is one (its elements and its length), in
  \<^verbatim>\<open>Array.prototype\<close>, and in \<^verbatim>\<open>Object.prototype\<close>.
\<close>

definition getProp :: "jsobject \<Rightarrow> string \<Rightarrow> jsval" where
  "getProp obj key =
     (if key = ''__proto__''
      then (case snd obj of None \<Rightarrow> JObject | Some p \<Rightarrow> JArray p)
      else case map_of (fst obj) key of
        Some us \<Rightarrow> JArray us
      | None \<Rightarrow>
          (case snd obj of
             None \<Rightarrow> if key \<in> set objectPrototypeNames then JObject else JUndefined
           | Some p \<Rightarrow>
               (case arrayIndex p key of
                  Some u \<Rightarrow> JString u
                | None \<Rightarrow>
                    if key = ''length'' then JNumber (length p)
                    else if key \<in> set arrayPrototypeNames \<or> key \<in> set objectPrototypeNames
                    then JObject else JUndefined)))"

text \<open>What \<^verbatim>\<open>if (v)\<close> and \<^verbatim>\<open>!v\<close> test.\<close>

fun truthy :: "jsval \<Rightarrow> bool" where
  "truthy JUndefined = False"
| "truthy (JArray us) = True"
| "truthy (JString str) = (str \<noteq> [])"
| "truthy (JNumber n) = (n \<noteq> 0)"
| "truthy JObject = True"

text \<open>
  \<^verbatim>\<open>onlineUsers[key] = us\<close>: the setter of \<^verbatim>\<open>__proto__\<close> makes the array the prototype;
  any other key becomes or stays an own property. Also \<^verbatim>\<open>onlineUsers[key].push(u)\<close>,
  with the array read before and \<open>u\<close> appended.
\<close>

definition setProp :: "jsobject \<Rightarrow> string \<Rightarrow> string list \<Rightarrow> jsobject" where
  "setProp obj key us =
     (if key = ''__proto__'' then (fst obj, Some us) else (AList.update key us (fst obj), snd obj))"

text \<open>\<^verbatim>\<open>delete onlineUsers[key]\<close> removes an own property and nothing else.\<close>

definition deleteProp :: "jsobject \<Rightarrow> string \<Rightarrow> jsobject" where
  "deleteProp obj key =
     (if key = ''__proto__'' then obj else (AList.delete key (fst obj), snd obj))"

text \<open>\<^verbatim>\<open>String.prototype.includes\<close>: whether the second string occurs in the first.\<close>

fun startsWith :: "string \<Rightarrow> string \<Rightarrow> bool" where
  "startsWith str [] = True"
| "startsWith [] (c # search) = False"
| "startsWith (d # str) (c # search) = (d = c \<and> startsWith str search)"

fun stringIncludes :: "string \<Rightarrow> string \<Rightarrow> bool" where
  "stringIncludes [] search = (search = [])"
| "stringIncludes (d # str) search = (startsWith (d # str) search \<or> stringIncludes str search)"

subsection \<open>Who receives an emission\<close>

text \<open>
  \<^verbatim>\<open>socket.emit\<close> and the acknowledgement callback reach the one socket;
  \<^verbatim>\<open>io.to(room).emit\<close> reaches every socket that joined the room;
  \<^verbatim>\<open>socket.to(room).emit\<close> the same except the socket itself; \<^verbatim>\<open>io.emit\<close> every
  connected socket.
\<close>

definition connected :: "state \<Rightarrow> conn list" where
  "connected s = remdups (map fst (sockets s))"

definition inRoom :: "state \<Rightarrow> string \<Rightarrow> conn \<Rightarrow> bool" where
  "inRoom s room c =
     (case map_of (sockets s) c of None \<Rightarrow> False | Some sk \<Rightarrow> room \<in> set (sock_rooms sk))"

fun recipients :: "state \<Rightarrow> emission \<Rightarrow> conn list" where
  "recipients s (Emit (ToSocket c) p) = [c]"
| "recipients s (Emit (ToRoom room) p) = filter (inRoom s room) (connected s)"
| "recipients s (Emit (ToRoomExcept room c) p) =
     filter (\<lambda>d. d \<noteq> c) (filter (inRoom s room) (connected s))"
| "recipients s (Emit ToAll p) = connected s"
| "recipients s (Ack c a) = [c]"

subsection \<open>String.prototype.trim\<close>

text \<open>
  The white space and line terminators of ECMAScript that a \<open>char\<close> can hold: tab, line
  feed, vertical tab, form feed, carriage return, space and no-break space.
\<close>

definition isWhiteSpace :: "char \<Rightarrow> bool" where
  "isWhiteSpace c = (of_char c \<in> {9, 10, 11, 12, 13, 32, 160 :: nat})"

definition trim :: "string \<Rightarrow> string" where
  "trim str = rev (dropWhile isWhiteSpace (rev (dropWhile isWhiteSpace str)))"

subsection \<open>The message collection\<close>

text \<open>
  Modelled from the spec: the query
  \<^verbatim>\<open>Message.find({ room }).sort({ createdAt: -1 }).limit(n)\<close> runs in MongoDB, which is
  not part of the repository. The spec describes the store as an append-only log
  whose \<open>createdAt\<close> does not decrease in insertion order, read newest first with ties
  in insertion order: the last \<open>n\<close> records of the room, the latest insertion first.
\<close>

definition Message_find :: "message list \<Rightarrow> string \<Rightarrow> nat \<Rightarrow> message list" where
  "Message_find log room n = take n (rev (filter (\<lambda>m. m_room m = room) log))"

text \<open>
  Modelled from the spec: \<^verbatim>\<open>Message.create\<close> also runs in the store; the record is
  appended to the log with the timestamp the store assigns.
\<close>

definition Message_create :: "message list \<Rightarrow> string \<Rightarrow> string \<Rightarrow> string \<Rightarrow> nat \<Rightarrow> message list" where
  "Message_create log room username text now =
     log @ [\<lparr>m_room = room, m_username = username, m_text = text, createdAt = now\<rparr>]"

subsection \<open>REST: POST /rooms and DELETE /rooms/:name\<close>

text \<open>Lines 167-177. \<open>None\<close> is a body without \<^verbatim>\<open>name\<close>.\<close>

definition postRooms :: "state \<Rightarrow> string option \<Rightarrow> state \<times> emission list \<times> response" where
  "postRooms s name =
     (case name of
        None \<Rightarrow> (s, [], Response 400 (ErrorBody ''Room name required''))
      | Some n \<Rightarrow>
          if n = [] then (s, [], Response 400 (ErrorBody ''Room name required''))
          else if n \<in> set (rooms s) then (s, [], Response 400 (ErrorBody ''Room already exists''))
          else
            let rooms' = rooms s @ [n] in
            ((setUsers s (setProp (users s) n []))\<lparr>rooms := rooms'\<rparr>,
             [Emit ToAll (RoomsUpdated rooms')],
             Response 200 (SuccessBody rooms')))"

text \<open>Lines 181-208. A route parameter is a string.\<close>

definition deleteRoom :: "state \<Rightarrow> string \<Rightarrow> state \<times> emission list \<times> response" where
  "deleteRoom s roomName =
     (if roomName \<in> set protectedRooms
      then (s, [], Response 400 (ErrorBody ''Default rooms cannot be deleted''))
      else if roomName \<notin> set (rooms s)
      then (s, [], Response 404 (ErrorBody ''Room not found''))
      else
        let rooms' = filter (\<lambda>r. r \<noteq> roomName) (rooms s);
            users' = (if truthy (getProp (users s) roomName)
                      then deleteProp (users s) roomName else users s)
        in ((setUsers s users')\<lparr>rooms := rooms'\<rparr>,
            [Emit ToAll (RoomsUpdated rooms')],
            Response 200 (SuccessBody rooms')))"

subsection \<open>Socket handlers\<close>

text \<open>Line 216: a new socket has neither username nor room.\<close>

definition connection :: "state \<Rightarrow> conn \<Rightarrow> state" where
  "connection s cid =
     s\<lparr>sockets := AList.update cid
          \<lparr>sock_username = None, sock_room = None, sock_rooms = []\<rparr> (sockets s)\<rparr>"

text \<open>
  Lines 233-237. Line 233 creates the entry when the read is falsy. Line 234 calls
  \<^verbatim>\<open>includes\<close> on what the read gives: on an array it tests membership and line 235
  appends; on a string it is the substring test, and line 235 throws when it fails,
  a string having no \<^verbatim>\<open>push\<close>; on anything else there is no \<^verbatim>\<open>includes\<close> and line 234
  throws. Line 237 emits what the read gives then.
\<close>

definition presenceJoin ::
  "jsobject \<Rightarrow> string \<Rightarrow> string \<Rightarrow> jsobject \<times> emission list \<times> completion" where
  "presenceJoin obj room username =
     (let obj1 = (if \<not> truthy (getProp obj room) then setProp obj room [] else obj) in
      case getProp obj1 room of
        JArray us \<Rightarrow>
          let obj2 = (if username \<notin> set us then setProp obj1 room (us @ [username]) else obj1)
          in (obj2, [Emit (ToRoom room) (OnlineUsers (getProp obj2 room))], Resolved)
      | JString str \<Rightarrow>
          if stringIncludes str username
          then (obj1, [Emit (ToRoom room) (OnlineUsers (getProp obj1 room))], Resolved)
          else (obj1, [], Rejected TypeError)
      | JUndefined \<Rightarrow> (obj1, [], Rejected TypeError)
      | JNumber n \<Rightarrow> (obj1, [], Rejected TypeError)
      | JObject \<Rightarrow> (obj1, [], Rejected TypeError))"

text \<open>Lines 221-223, up to the \<^verbatim>\<open>await\<close>.\<close>

definition joinRoom_begin :: "state \<Rightarrow> conn \<Rightarrow> string \<Rightarrow> string \<Rightarrow> state" where
  "joinRoom_begin s cid room username =
     s\<lparr>sockets := AList.map_entry cid
          (\<lambda>sk. \<lparr>sock_username = Some username, sock_room = Some room,
                 sock_rooms = List.insert room (sock_rooms sk)\<rparr>) (sockets s)\<rparr>"

text \<open>Lines 226-237, from the \<^verbatim>\<open>await\<close> on; \<open>fault\<close> is the exception of the query, if any.\<close>

definition joinRoom_resume ::
  "state \<Rightarrow> conn \<Rightarrow> string \<Rightarrow> string \<Rightarrow> error option \<Rightarrow> state \<times> emission list \<times> completion" where
  "joinRoom_resume s cid room username fault =
     (case fault of
        Some e \<Rightarrow> (s, [], Rejected e)
      | None \<Rightarrow>
          let history = Message_find (messages s) room 50;
              joined = presenceJoin (users s) room username
          in (setUsers s (fst joined),
              Emit (ToSocket cid) (ChatHistory (rev history)) # fst (snd joined),
              snd (snd joined)))"

definition joinRoom ::
  "state \<Rightarrow> conn \<Rightarrow> string \<Rightarrow> string \<Rightarrow> error option \<Rightarrow> state \<times> emission list \<times> completion" where
  "joinRoom s cid room username fault =
     joinRoom_resume (joinRoom_begin s cid room username) cid room username fault"

text \<open>Lines 241-254; \<open>cb\<close> tells whether the client passed an acknowledgement callback.\<close>

definition acknowledge :: "bool \<Rightarrow> conn \<Rightarrow> ack \<Rightarrow> emission list" where
  "acknowledge cb cid a = (if cb then [Ack cid a] else [])"

definition createRoom :: "state \<Rightarrow> conn \<Rightarrow> string option \<Rightarrow> bool \<Rightarrow> state \<times> emission list" where
  "createRoom s cid name cb =
     (let n = trim (case name of None \<Rightarrow> [] | Some v \<Rightarrow> v) in
      if n = [] then (s, acknowledge cb cid (AckError ''Room name required''))
      else if n \<in> set (rooms s) then (s, acknowledge cb cid (AckError ''Room already exists''))
      else
        let rooms' = rooms s @ [n] in
        ((setUsers s (setProp (users s) n []))\<lparr>rooms := rooms'\<rparr>,
         Emit ToAll (RoomsUpdated rooms') # acknowledge cb cid (AckSuccess rooms')))"

text \<open>Lines 257-265; \<open>now\<close> is the \<^verbatim>\<open>createdAt\<close> the store assigns.\<close>

definition chatMessage ::
  "state \<Rightarrow> conn \<Rightarrow> string \<Rightarrow> string \<Rightarrow> string \<Rightarrow> error option \<Rightarrow> nat
     \<Rightarrow> state \<times> emission list \<times> completion" where
  "chatMessage s cid room username text fault now =
     (if room = [] \<or> username = [] \<or> text = [] then (s, [], Resolved)
      else case fault of
        Some e \<Rightarrow> (s, [], Rejected e)
      | None \<Rightarrow>
          (s\<lparr>messages := Message_create (messages s) room username text now\<rparr>,
           [Emit (ToRoom room) (ChatMessage username text now)],
           Resolved))"

text \<open>Lines 268-270.\<close>

definition typing :: "state \<Rightarrow> conn \<Rightarrow> string \<Rightarrow> string \<Rightarrow> bool \<Rightarrow> state \<times> emission list" where
  "typing s cid room username isTyping =
     (s, [Emit (ToRoomExcept room cid) (Typing username isTyping)])"

text \<open>
  Lines 273-280. The socket has left its rooms when the handler runs; the handler reads
  the two fields of the socket. It is not \<^verbatim>\<open>async\<close>: the third component is the
  exception it throws, if any, which is the \<^verbatim>\<open>TypeError\<close> of line 276 when the read is
  truthy and has no \<^verbatim>\<open>filter\<close>.
\<close>

definition disconnect :: "state \<Rightarrow> conn \<Rightarrow> state \<times> emission list \<times> error option" where
  "disconnect s cid =
     (case map_of (sockets s) cid of
        None \<Rightarrow> (s, [], None)
      | Some sk \<Rightarrow>
          let s1 = s\<lparr>sockets := AList.delete cid (sockets s)\<rparr> in
          (case sock_room sk of
             None \<Rightarrow> (s1, [], None)
           | Some room \<Rightarrow>
               if room \<noteq> [] \<and> truthy (getProp (users s1) room)
               then
                 (case getProp (users s1) room of
                    JArray us \<Rightarrow>
                      let s2 = setUsers s1 (setProp (users s1) room
                                 (filter (\<lambda>u. Some u \<noteq> sock_username sk) us))
                      in (s2, [Emit (ToRoom room) (OnlineUsers (getProp (users s2) room))], None)
                  | JUndefined \<Rightarrow> (s1, [], Some TypeError)
                  | JString str \<Rightarrow> (s1, [], Some TypeError)
                  | JNumber n \<Rightarrow> (s1, [], Some TypeError)
                  | JObject \<Rightarrow> (s1, [], Some TypeError))
               else (s1, [], None)))"

subsection \<open>Scenarios\<close>

text \<open>Two sockets join the same room under the same username, one after the other.\<close>

definition twoJoined :: "state \<Rightarrow> conn \<Rightarrow> conn \<Rightarrow> string \<Rightarrow> string \<Rightarrow> state" where
  "twoJoined s c1 c2 room username =
     fst (joinRoom (fst (joinRoom s c1 room username None)) c2 room username None)"

text \<open>A log of four messages in two rooms, three of them with the same timestamp.\<close>

definition sampleLog :: "message list" where
  "sampleLog =
    [\<lparr>m_room = ''main'', m_username = ''alice'', m_text = ''one'', createdAt = 1\<rparr>,
     \<lparr>m_room = ''work'', m_username = ''bob'', m_text = ''two'', createdAt = 2\<rparr>,
     \<lparr>m_room = ''main'', m_username = ''bob'', m_text = ''three'', createdAt = 2\<rparr>,
     \<lparr>m_room = ''main'', m_username = ''alice'', m_text = ''four'', createdAt = 2\<rparr>]"

section \<open>Basic facts\<close>

subsection \<open>Recipients\<close>

lemma inRoom_connected: "inRoom s room c \<Longrightarrow> c \<in> set (connected s)"
  by (auto simp: inRoom_def connected_def split: option.splits
        dest: map_of_SomeD intro: rev_image_eqI)

lemma set_recipients_ToRoom: "set (recipients s (Emit (ToRoom room) p)) = {c. inRoom s room c}"
  by (auto dest: inRoom_connected)

lemma set_recipients_ToRoomExcept:
  "set (recipients s (Emit (ToRoomExcept room c) p)) = {d. inRoom s room d} - {c}"
  by (auto dest: inRoom_connected)

subsection \<open>trim\<close>

lemma trim_last:
  assumes "trim x \<noteq> []"
  shows "\<not> isWhiteSpace (last (trim x))"
proof -
  let ?z = "dropWhile isWhiteSpace (rev (dropWhile isWhiteSpace x))"
  from assms have z: "?z \<noteq> []" by (simp add: trim_def)
  then have "\<not> isWhiteSpace (hd ?z)" by (rule hd_dropWhile)
  with z show ?thesis by (simp add: trim_def last_rev)
qed

lemma trim_hd:
  assumes "trim x \<noteq> []"
  shows "\<not> isWhiteSpace (hd (trim x))"
proof -
  let ?y = "dropWhile isWhiteSpace x"
  let ?z = "dropWhile isWhiteSpace (rev ?y)"
  from assms have z: "?z \<noteq> []" by (simp add: trim_def)
  have y: "?y \<noteq> []"
  proof
    assume "?y = []"
    then have "?z = []" by (simp only: rev.simps dropWhile.simps)
    with z show False by contradiction
  qed
  have "rev ?y = takeWhile isWhiteSpace (rev ?y) @ ?z" by simp
  then have "last (rev ?y) = last ?z" using z by (metis last_appendR)
  then have "last ?z = hd ?y" using y by (simp add: last_rev)
  moreover have "\<not> isWhiteSpace (hd ?y)" using y by (rule hd_dropWhile)
  ultimately show ?thesis using z by (simp add: trim_def hd_rev)
qed

text \<open>The socket handler stores the trimmed name or nothing.\<close>

lemma createRoom_rooms:
  "rooms (fst (createRoom s cid name cb)) = rooms s
   \<or> rooms (fst (createRoom s cid name cb)) =
       rooms s @ [trim (case name of None \<Rightarrow> [] | Some v \<Rightarrow> v)]"
  by (simp add: createRoom_def Let_def)

subsection \<open>The message collection\<close>

text \<open>
  On a log whose timestamps do not decrease, the modelled query returns its records
  newest first, as \<^verbatim>\<open>sort({ createdAt: -1 })\<close> asks.
\<close>

lemma Message_find_newest_first:
  assumes "sorted_wrt (\<lambda>a b. createdAt a \<le> createdAt b) log"
  shows "sorted_wrt (\<lambda>a b. createdAt b \<le> createdAt a) (Message_find log room n)"
  using assms by (simp add: Message_find_def sorted_wrt_rev sorted_wrt_filter)

lemma rev_Message_find:
  "rev (Message_find log room n) =
     drop (length (filter (\<lambda>m. m_room m = room) log) - n) (filter (\<lambda>m. m_room m = room) log)"
  by (simp add: Message_find_def take_rev)

subsection \<open>The object onlineUsers\<close>

lemma users_setUsers [simp]: "users (setUsers s obj) = obj"
  by (simp add: users_def setUsers_def)

lemma setUsers_fields [simp]:
  "sockets (setUsers s obj) = sockets s"
  "rooms (setUsers s obj) = rooms s"
  "messages (setUsers s obj) = messages s"
  by (simp_all add: setUsers_def)

lemma users_fields [simp]:
  "users (s\<lparr>sockets := k\<rparr>) = users s"
  "users (s\<lparr>rooms := r\<rparr>) = users s"
  "users (s\<lparr>messages := m\<rparr>) = users s"
  by (simp_all add: users_def)

lemma getProp_setProp [simp]: "getProp (setProp obj key us) key = JArray us"
  by (simp add: getProp_def setProp_def AList.update_conv')

text \<open>
  Reads through the prototype chain. On the initial object a room named
  \<^verbatim>\<open>constructor\<close> reads a function: joinRoom delivers the history and then rejects,
  and disconnect throws. Once a room named \<^verbatim>\<open>__proto__\<close> has been created and joined,
  the key \<^verbatim>\<open>0\<close> reads the first username of the array that is now the prototype.
\<close>

lemma joinRoom_inherited_name:
  "joinRoom (connection init 1) 1 ''constructor'' ''alice'' None =
     (joinRoom_begin (connection init 1) 1 ''constructor'' ''alice'',
      [Emit (ToSocket 1) (ChatHistory [])], Rejected TypeError)
   \<and> disconnect (joinRoom_begin (connection init 1) 1 ''constructor'' ''alice'') 1 =
       (init, [], Some TypeError)"
  by (simp add: disconnect_def joinRoom_def joinRoom_resume_def joinRoom_begin_def connection_def init_def
      presenceJoin_def getProp_def setProp_def users_def setUsers_def objectPrototypeNames_def
      Let_def Message_find_def)

lemma prototype_array_lookup:
  "getProp (users (fst (joinRoom (fst (postRooms init (Some ''__proto__''))) 1
      ''__proto__'' ''alice'' None))) ''0'' = JString ''alice''"
proof -
  have zero: "char_of (48::nat) = CHR ''0''" by code_simp
  show ?thesis
    by (simp add: postRooms_def builtinRooms_def joinRoom_def joinRoom_resume_def joinRoom_begin_def connection_def init_def
      presenceJoin_def getProp_def setProp_def users_def setUsers_def objectPrototypeNames_def
      Let_def Message_find_def arrayIndex_def decimal.simps upt_rec zero)
qed

subsection \<open>Presence\<close>

lemma presenceJoin_member:
  assumes "getProp obj room = JArray us" and "u \<in> set us"
  shows "presenceJoin obj room u = (obj, [Emit (ToRoom room) (OnlineUsers (JArray us))], Resolved)"
  using assms by (simp add: presenceJoin_def)

lemma presenceJoin_append:
  assumes "getProp obj room = JArray us" and "u \<notin> set us"
  shows "presenceJoin obj room u =
    (setProp obj room (us @ [u]), [Emit (ToRoom room) (OnlineUsers (JArray (us @ [u])))], Resolved)"
  using assms by (simp add: presenceJoin_def)

lemma presenceJoin_create:
  assumes "\<not> truthy (getProp obj room)"
  shows "presenceJoin obj room u =
    (setProp (setProp obj room []) room [u], [Emit (ToRoom room) (OnlineUsers (JArray [u]))],
     Resolved)"
  using assms by (simp add: presenceJoin_def)

lemma presenceJoin_other:
  assumes "truthy (getProp obj room)" and "\<forall>us. getProp obj room \<noteq> JArray us"
  shows "fst (presenceJoin obj room u) = obj"
  using assms by (simp add: presenceJoin_def split: jsval.splits)

lemma presenceJoin_idem:
  "fst (presenceJoin (fst (presenceJoin obj room u)) room u) = fst (presenceJoin obj room u)"
proof (cases "truthy (getProp obj room)")
  case False
  then show ?thesis by (simp add: presenceJoin_create presenceJoin_member [where us = "[u]"])
next
  case True
  show ?thesis
  proof (cases "\<exists>us. getProp obj room = JArray us")
    case False
    with True show ?thesis by (simp add: presenceJoin_other)
  next
    case True
    then obtain us where us: "getProp obj room = JArray us" by blast
    show ?thesis
    proof (cases "u \<in> set us")
      case True
      with us show ?thesis by (simp add: presenceJoin_member)
    next
      case False
      with us show ?thesis
        by (simp add: presenceJoin_append presenceJoin_member [where us = "us @ [u]"])
    qed
  qed
qed

lemma presenceJoin_emissions:
  "fst (snd (presenceJoin obj room u)) =
     (if snd (snd (presenceJoin obj room u)) = Resolved
      then [Emit (ToRoom room) (OnlineUsers (getProp (fst (presenceJoin obj room u)) room))]
      else [])"
  by (simp add: presenceJoin_def Let_def split: jsval.splits)

lemma users_joinRoom:
  "users (fst (joinRoom s c room u None)) = fst (presenceJoin (users s) room u)"
  by (simp add: joinRoom_def joinRoom_resume_def joinRoom_begin_def Let_def)

lemma sockets_joinRoom:
  "sockets (fst (joinRoom s c room u None)) =
     AList.map_entry c (\<lambda>sk. \<lparr>sock_username = Some u, sock_room = Some room,
        sock_rooms = List.insert room (sock_rooms sk)\<rparr>) (sockets s)"
  by (simp add: joinRoom_def joinRoom_resume_def joinRoom_begin_def Let_def)

text \<open>
  Two joins in a row from connected sockets, in a room whose entry is missing or an
  array, leave both sockets with the room and the username, and the username listed.
\<close>

lemma twoJoined_sockets:
  assumes "c1 \<noteq> c2" and "map_of (sockets s) c1 = Some k1" and "map_of (sockets s) c2 = Some k2"
  shows "map_of (sockets (twoJoined s c1 c2 r u)) c1 =
           Some \<lparr>sock_username = Some u, sock_room = Some r,
                 sock_rooms = List.insert r (sock_rooms k1)\<rparr>"
    and "map_of (sockets (twoJoined s c1 c2 r u)) c2 =
           Some \<lparr>sock_username = Some u, sock_room = Some r,
                 sock_rooms = List.insert r (sock_rooms k2)\<rparr>"
  using assms by (simp_all add: twoJoined_def sockets_joinRoom AList.map_of_map_entry)

lemma twoJoined_users:
  "users (twoJoined s c1 c2 r u) = fst (presenceJoin (users s) r u)"
  by (simp add: twoJoined_def users_joinRoom presenceJoin_idem)

lemma twoJoined_listed:
  assumes "getProp (users s) r = JUndefined \<or> (\<exists>us. getProp (users s) r = JArray us)"
  shows "\<exists>us. getProp (users (twoJoined s c1 c2 r u)) r = JArray us \<and> u \<in> set us"
proof -
  from assms consider "getProp (users s) r = JUndefined"
    | us where "getProp (users s) r = JArray us" "u \<in> set us"
    | us where "getProp (users s) r = JArray us" "u \<notin> set us" by blast
  then show ?thesis
    by cases (simp_all add: twoJoined_users presenceJoin_create presenceJoin_member
        presenceJoin_append)
qed

subsection \<open>disconnect\<close>

text \<open>
  What the handler does for a socket whose room has a non-empty name and reads an
  array: it does not look at any other socket.
\<close>

lemma disconnect_joined:
  assumes "map_of (sockets s) c = Some kc" and "sock_room kc = Some r"
    and "sock_username kc = Some u" and "r \<noteq> []" and "getProp (users s) r = JArray us"
  shows "disconnect s c =
    (setUsers (s\<lparr>sockets := AList.delete c (sockets s)\<rparr>)
       (setProp (users s) r (filter (\<lambda>x. x \<noteq> u) us)),
     [Emit (ToRoom r) (OnlineUsers (JArray (filter (\<lambda>x. x \<noteq> u) us)))], None)"
  using assms by (simp add: disconnect_def Let_def)

section \<open>The claims\<close>

subsection \<open>Room registry\<close>

text \<open>
  C1: deleting a built-in room is refused, so the four built-in rooms stay in the
  registry. The handler compares the name with \<open>protectedRooms\<close>, which holds none of
  the four rooms the server starts with: DELETE /rooms/main on the initial registry
  answers 200 and removes the room, and four such requests empty the registry.
\<close>

theorem deleteRoom_builtin_not_protected:
  "deleteRoom init ''main'' =
     (init\<lparr>rooms := [''chil'', ''work'', ''fun'']\<rparr>,
      [Emit ToAll (RoomsUpdated [''chil'', ''work'', ''fun''])],
      Response 200 (SuccessBody [''chil'', ''work'', ''fun'']))
   \<and> rooms (fst (deleteRoom (fst (deleteRoom (fst (deleteRoom (fst (deleteRoom init
        ''main'')) ''chil'')) ''work'')) ''fun'')) = []"
  by (simp add: deleteRoom_def init_def builtinRooms_def protectedRooms_def Let_def
      getProp_def users_def setUsers_def objectPrototypeNames_def)

text \<open>
  C3: every way of creating a room trims the name before comparing and storing it and
  refuses a name of white space only. The socket handler does; POST /rooms stores the
  name as received, white space included, and accepts a name that is a single space.
\<close>

theorem postRooms_stores_untrimmed:
  "postRooms init (Some '' lobby '') =
     (init\<lparr>rooms := builtinRooms @ ['' lobby ''], onlineUsers := [('' lobby '', [])]\<rparr>,
      [Emit ToAll (RoomsUpdated (builtinRooms @ ['' lobby '']))],
      Response 200 (SuccessBody (builtinRooms @ ['' lobby ''])))
   \<and> trim '' lobby '' = ''lobby''
   \<and> snd (snd (postRooms init (Some '' ''))) = Response 200 (SuccessBody (builtinRooms @ ['' '']))
   \<and> trim '' '' = []
   \<and> fst (createRoom init 1 (Some '' lobby '') True) =
       init\<lparr>rooms := builtinRooms @ [''lobby''], onlineUsers := [(''lobby'', [])]\<rparr>
   \<and> snd (createRoom init 1 (Some '' '') True) = [Ack 1 (AckError ''Room name required'')]"
  by (simp add: postRooms_def createRoom_def acknowledge_def init_def builtinRooms_def
      trim_def isWhiteSpace_def Let_def setProp_def users_def setUsers_def)

text \<open>
  C4: creating a room that is neither built-in nor in the registry and deleting it at
  once succeeds, restores the room list and discards the presence entry of the room.
  For the name \<open>general\<close> the creation succeeds and the deletion is refused with
  "Default rooms cannot be deleted", so the room stays: the list of line 185 names rooms
  that are not the default ones, as in C1. For the name \<^verbatim>\<open>__proto__\<close> both requests
  succeed, and the array that line 174 made the prototype of \<^verbatim>\<open>onlineUsers\<close> is still
  read under that name afterwards.
\<close>

theorem create_then_delete_refused:
  "''general'' \<notin> set builtinRooms \<and> ''general'' \<notin> set (rooms init)
   \<and> snd (snd (postRooms init (Some ''general'')))
       = Response 200 (SuccessBody (builtinRooms @ [''general'']))
   \<and> snd (snd (deleteRoom (fst (postRooms init (Some ''general''))) ''general''))
       = Response 400 (ErrorBody ''Default rooms cannot be deleted'')
   \<and> rooms (fst (deleteRoom (fst (postRooms init (Some ''general''))) ''general''))
       = builtinRooms @ [''general'']
   \<and> snd (snd (deleteRoom (fst (postRooms init (Some ''__proto__''))) ''__proto__''))
       = Response 200 (SuccessBody builtinRooms)
   \<and> getProp (users init) ''__proto__'' = JObject
   \<and> getProp (users (fst (deleteRoom (fst (postRooms init (Some ''__proto__'')))
        ''__proto__''))) ''__proto__'' = JArray []"
  by (simp add: postRooms_def deleteRoom_def init_def builtinRooms_def protectedRooms_def Let_def
      getProp_def setProp_def deleteProp_def users_def setUsers_def)

text \<open>
  C8: when createRoom fails, because the trimmed name is empty or already in the
  registry, the state is unchanged, the only thing sent is the error to the callback of
  the requesting socket (nothing when the client passed no callback), and so no
  roomsUpdated event is emitted.
\<close>

theorem createRoom_failure_silent:
  assumes "trim (case name of None \<Rightarrow> [] | Some v \<Rightarrow> v) = []
           \<or> trim (case name of None \<Rightarrow> [] | Some v \<Rightarrow> v) \<in> set (rooms s)"
  shows "fst (createRoom s cid name cb) = s
    \<and> (\<exists>msg. snd (createRoom s cid name cb) = (if cb then [Ack cid (AckError msg)] else []))
    \<and> (\<forall>e \<in> set (snd (createRoom s cid name cb)).
          recipients s e = [cid] \<and> (\<forall>t rs. e \<noteq> Emit t (RoomsUpdated rs)))"
  using assms by (auto simp: createRoom_def acknowledge_def Let_def)

text \<open>Creating \<open>main\<close>, which exists, with white space around the name.\<close>

theorem createRoom_failure_silent_witness:
  "trim '' main '' \<in> set (rooms init)
   \<and> createRoom init 1 (Some '' main '') True = (init, [Ack 1 (AckError ''Room already exists'')])"
  using createRoom_failure_silent [of "Some '' main ''" init 1 True]
  by (simp add: createRoom_def acknowledge_def init_def builtinRooms_def trim_def
      isWhiteSpace_def Let_def)

subsection \<open>Store failures\<close>

text \<open>
  C2: a failing store operation during chatMessage or joinRoom is reported to the
  calling socket and the handler does not let the exception escape. Neither handler
  catches anything: with a failing store each rejects with the error of the store and
  emits nothing; joinRoom has by then subscribed the socket and set its fields.
\<close>

theorem store_failure_rejects_unreported:
  "chatMessage (connection init 1) 1 ''main'' ''alice'' ''hi'' (Some StoreError) 0
     = (connection init 1, [], Rejected StoreError)
   \<and> joinRoom (connection init 1) 1 ''main'' ''alice'' (Some StoreError)
     = (joinRoom_begin (connection init 1) 1 ''main'' ''alice'', [], Rejected StoreError)
   \<and> inRoom (joinRoom_begin (connection init 1) 1 ''main'' ''alice'') ''main'' 1"
  by (simp add: chatMessage_def joinRoom_def joinRoom_resume_def joinRoom_begin_def
      connection_def init_def inRoom_def)

subsection \<open>Joining, sending, typing\<close>

text \<open>
  C5: joinRoom sends the history to the joining socket alone: the last 50 messages of
  the room (all of them when there are fewer) in insertion order, which is the order
  of their timestamps, equal timestamps in insertion order, when the timestamps of the
  log do not decrease. It is the first emission; the only other one is what
  \<^verbatim>\<open>onlineUsers[room]\<close> reads, to the room, when the handler resolves.
\<close>

theorem joinRoom_history:
  "fst (snd (joinRoom s cid room username None)) =
     Emit (ToSocket cid)
        (ChatHistory (drop (length (filter (\<lambda>m. m_room m = room) (messages s)) - 50)
                           (filter (\<lambda>m. m_room m = room) (messages s))))
     # (if snd (snd (joinRoom s cid room username None)) = Resolved
        then [Emit (ToRoom room)
                (OnlineUsers (getProp (users (fst (joinRoom s cid room username None))) room))]
        else [])
   \<and> (\<forall>h. recipients (fst (joinRoom s cid room username None))
             (Emit (ToSocket cid) (ChatHistory h)) = [cid])
   \<and> length (drop (length (filter (\<lambda>m. m_room m = room) (messages s)) - 50)
                  (filter (\<lambda>m. m_room m = room) (messages s)))
       = min 50 (length (filter (\<lambda>m. m_room m = room) (messages s)))
   \<and> (sorted_wrt (\<lambda>a b. createdAt a \<le> createdAt b) (messages s) \<longrightarrow>
        sorted_wrt (\<lambda>a b. createdAt a \<le> createdAt b)
          (drop (length (filter (\<lambda>m. m_room m = room) (messages s)) - 50)
                (filter (\<lambda>m. m_room m = room) (messages s))))"
  using presenceJoin_emissions [of "users s" room username]
  by (simp add: joinRoom_def joinRoom_resume_def joinRoom_begin_def Let_def rev_Message_find
      sorted_wrt_filter)

text \<open>Joining \<open>main\<close> over the sample log: three messages, two with equal timestamps.\<close>

theorem joinRoom_history_witness:
  "sorted_wrt (\<lambda>a b. createdAt a \<le> createdAt b) sampleLog
   \<and> joinRoom ((connection init 1)\<lparr>messages := sampleLog\<rparr>) 1 ''main'' ''carol'' None =
     ((connection init 1)\<lparr>messages := sampleLog, onlineUsers := [(''main'', [''carol''])],
        sockets := [(1, \<lparr>sock_username = Some ''carol'', sock_room = Some ''main'',
                         sock_rooms = [''main'']\<rparr>)]\<rparr>,
      [Emit (ToSocket 1) (ChatHistory
         [\<lparr>m_room = ''main'', m_username = ''alice'', m_text = ''one'', createdAt = 1\<rparr>,
          \<lparr>m_room = ''main'', m_username = ''bob'', m_text = ''three'', createdAt = 2\<rparr>,
          \<lparr>m_room = ''main'', m_username = ''alice'', m_text = ''four'', createdAt = 2\<rparr>]),
       Emit (ToRoom ''main'') (OnlineUsers (JArray [''carol'']))],
      Resolved)"
  using joinRoom_history [of "(connection init 1)\<lparr>messages := sampleLog\<rparr>" 1 "''main''" "''carol''"]
  by (simp add: sampleLog_def joinRoom_def joinRoom_resume_def joinRoom_begin_def connection_def init_def
      presenceJoin_def getProp_def setProp_def users_def setUsers_def objectPrototypeNames_def
      Let_def Message_find_def)

text \<open>
  C6: chatMessage with an empty room, username or text changes nothing and emits
  nothing, whatever the store would do. Otherwise, the store accepting the record, the
  message is appended with the timestamp of the store and the three fields are emitted
  to the room: to every socket that joined it, the sender among them when it did.
\<close>

theorem chatMessage_persist_broadcast:
  "(room = [] \<or> username = [] \<or> text = [] \<longrightarrow>
      chatMessage s cid room username text fault now = (s, [], Resolved))
   \<and> (room \<noteq> [] \<and> username \<noteq> [] \<and> text \<noteq> [] \<longrightarrow>
      chatMessage s cid room username text None now =
        (s\<lparr>messages := messages s @
             [\<lparr>m_room = room, m_username = username, m_text = text, createdAt = now\<rparr>]\<rparr>,
         [Emit (ToRoom room) (ChatMessage username text now)],
         Resolved)
      \<and> set (recipients (fst (chatMessage s cid room username text None now))
                (Emit (ToRoom room) (ChatMessage username text now)))
          = {c. inRoom s room c}
      \<and> (inRoom s room cid \<longrightarrow>
           cid \<in> set (recipients (fst (chatMessage s cid room username text None now))
                        (Emit (ToRoom room) (ChatMessage username text now)))))"
  by (simp add: chatMessage_def Message_create_def set_recipients_ToRoom inRoom_def
      del: recipients.simps)

text \<open>An empty text is dropped; a message of socket 1 reaches sockets 1 and 2 of the room.\<close>

theorem chatMessage_persist_broadcast_witness:
  "chatMessage (connection init 1) 1 ''main'' ''alice'' [] None 7 = (connection init 1, [], Resolved)
   \<and> chatMessage (twoJoined (connection (connection init 1) 2) 1 2 ''main'' ''alice'') 1
        ''main'' ''alice'' ''hi'' None 7 =
       ((twoJoined (connection (connection init 1) 2) 1 2 ''main'' ''alice'')
          \<lparr>messages := [\<lparr>m_room = ''main'', m_username = ''alice'', m_text = ''hi'', createdAt = 7\<rparr>]\<rparr>,
        [Emit (ToRoom ''main'') (ChatMessage ''alice'' ''hi'' 7)], Resolved)
   \<and> recipients (twoJoined (connection (connection init 1) 2) 1 2 ''main'' ''alice'')
        (Emit (ToRoom ''main'') (ChatMessage ''alice'' ''hi'' 7)) = [1, 2]"
  using chatMessage_persist_broadcast
      [of "''main''" "''alice''" "[]" "connection init 1" 1 None 7]
    chatMessage_persist_broadcast
      [of "''main''" "''alice''" "''hi''"
          "twoJoined (connection (connection init 1) 2) 1 2 ''main'' ''alice''" 1 None 7]
  by (simp add: twoJoined_def joinRoom_def joinRoom_resume_def joinRoom_begin_def connection_def init_def
      presenceJoin_def getProp_def setProp_def users_def setUsers_def objectPrototypeNames_def
      Let_def Message_find_def inRoom_def connected_def)

text \<open>
  C7: typing emits the username and the flag to every socket that joined the room
  except the sending socket, which never receives its own event; the state is unchanged.
\<close>

theorem typing_excludes_sender:
  "typing s cid room username isTyping =
     (s, [Emit (ToRoomExcept room cid) (Typing username isTyping)])
   \<and> set (recipients s (Emit (ToRoomExcept room cid) (Typing username isTyping)))
       = {c. inRoom s room c} - {cid}
   \<and> cid \<notin> set (recipients s (Emit (ToRoomExcept room cid) (Typing username isTyping)))"
  by (simp add: typing_def set_recipients_ToRoomExcept del: recipients.simps)

text \<open>Sockets 1 and 2 are in \<open>main\<close>; socket 1 types; socket 2 alone is told.\<close>

theorem typing_excludes_sender_witness:
  "recipients (twoJoined (connection (connection init 1) 2) 1 2 ''main'' ''alice'')
        (Emit (ToRoomExcept ''main'' 1) (Typing ''alice'' True)) = [2]
   \<and> snd (typing (twoJoined (connection (connection init 1) 2) 1 2 ''main'' ''alice'') 1
             ''main'' ''alice'' True)
       = [Emit (ToRoomExcept ''main'' 1) (Typing ''alice'' True)]"
  using typing_excludes_sender
      [of "twoJoined (connection (connection init 1) 2) 1 2 ''main'' ''alice''" 1
          "''main''" "''alice''" True]
  by (simp add: twoJoined_def joinRoom_def joinRoom_resume_def joinRoom_begin_def connection_def init_def
      presenceJoin_def getProp_def setProp_def users_def setUsers_def objectPrototypeNames_def
      Let_def Message_find_def inRoom_def connected_def)

subsection \<open>Presence\<close>

text \<open>
  C9: joining a room twice under the same username, from the same socket or another,
  leaves the object \<^verbatim>\<open>onlineUsers\<close>, and so the presence list of the room, exactly as one
  join does. A join under a username that is in the list of the room changes nothing;
  one under a username that is not appends it at the end; one in a room without entry
  makes the list of that one username. This holds for every room name: named after an
  inherited property, a room has no list, and neither join builds one.
\<close>

theorem joinRoom_presence_idempotent:
  "users (fst (joinRoom (fst (joinRoom s c room u None)) c' room u None))
     = users (fst (joinRoom s c room u None))
   \<and> (\<forall>us. getProp (users s) room = JArray us \<and> u \<in> set us \<longrightarrow>
        users (fst (joinRoom s c room u None)) = users s)
   \<and> (\<forall>us. getProp (users s) room = JArray us \<and> u \<notin> set us \<longrightarrow>
        getProp (users (fst (joinRoom s c room u None))) room = JArray (us @ [u]))
   \<and> (getProp (users s) room = JUndefined \<longrightarrow>
        getProp (users (fst (joinRoom s c room u None))) room = JArray [u])"
  by (simp add: users_joinRoom presenceJoin_idem presenceJoin_member presenceJoin_append
      presenceJoin_create)

text \<open>alice joins \<open>main\<close> twice and is listed once; bob joins and is appended.\<close>

theorem joinRoom_presence_idempotent_witness:
  "getProp (users (connection init 1)) ''main'' = JUndefined
   \<and> users (fst (joinRoom (connection init 1) 1 ''main'' ''alice'' None))
       = ([(''main'', [''alice''])], None)
   \<and> users (fst (joinRoom (fst (joinRoom (connection init 1) 1 ''main'' ''alice'' None))
        1 ''main'' ''alice'' None)) = ([(''main'', [''alice''])], None)
   \<and> users (fst (joinRoom (fst (joinRoom (connection init 1) 1 ''main'' ''alice'' None))
        1 ''main'' ''bob'' None)) = ([(''main'', [''alice'', ''bob''])], None)"
  using joinRoom_presence_idempotent [of "connection init 1" 1 "''main''" "''alice''" 1]
    joinRoom_presence_idempotent
      [of "fst (joinRoom (connection init 1) 1 ''main'' ''alice'' None)" 1 "''main''" "''bob''" 1]
  by (simp add: joinRoom_def joinRoom_resume_def joinRoom_begin_def connection_def init_def
      presenceJoin_def getProp_def setProp_def users_def setUsers_def objectPrototypeNames_def
      Let_def Message_find_def)

text \<open>
  C10, as amended: presence is kept per username. Let two distinct connected sockets
  both have the room \<open>r\<close> and the username \<open>u\<close> as the fields of their latest join and
  be subscribed to \<open>r\<close>, let the name \<open>r\<close> be non-empty, and let \<open>r\<close> read a presence list
  when one of them disconnects. Then \<open>u\<close> is removed from the list and the new list is
  emitted to the room, where the other socket, still connected under the username \<open>u\<close>,
  receives it.
\<close>

theorem disconnect_removes_shared_username:
  assumes "c \<noteq> d"
    and "map_of (sockets s) c = Some kc" and "sock_room kc = Some r"
    and "sock_username kc = Some u" and "r \<in> set (sock_rooms kc)"
    and "map_of (sockets s) d = Some kd" and "sock_room kd = Some r"
    and "sock_username kd = Some u" and "r \<in> set (sock_rooms kd)"
    and "r \<noteq> []" and "getProp (users s) r = JArray us"
  shows "fst (snd (disconnect s c)) =
           [Emit (ToRoom r) (OnlineUsers (JArray (filter (\<lambda>x. x \<noteq> u) us)))]
    \<and> snd (snd (disconnect s c)) = None
    \<and> getProp (users (fst (disconnect s c))) r = JArray (filter (\<lambda>x. x \<noteq> u) us)
    \<and> u \<notin> set (filter (\<lambda>x. x \<noteq> u) us)
    \<and> map_of (sockets (fst (disconnect s c))) c = None
    \<and> map_of (sockets (fst (disconnect s c))) d = Some kd
    \<and> inRoom (fst (disconnect s c)) r d
    \<and> d \<in> set (recipients (fst (disconnect s c))
                  (Emit (ToRoom r) (OnlineUsers (JArray (filter (\<lambda>x. x \<noteq> u) us)))))"
proof -
  note dj = disconnect_joined [OF assms(2,3,4,10,11)]
  have in_d: "inRoom (fst (disconnect s c)) r d"
    using assms by (simp add: dj inRoom_def)
  then have "d \<in> set (connected (fst (disconnect s c)))"
    by (rule inRoom_connected)
  with in_d show ?thesis
    using assms by (simp add: dj AList.delete_conv')
qed

text \<open>
  Sockets 1 and 2 join \<open>main\<close> as alice, which gives the state the theorem asks for;
  socket 1 disconnects; socket 2 receives the empty list.
\<close>

theorem disconnect_removes_shared_username_witness:
  "(1::nat) \<noteq> 2 \<and> ''main'' \<noteq> []
   \<and> map_of (sockets (twoJoined (connection (connection init 1) 2) 1 2 ''main'' ''alice'')) 1
       = Some \<lparr>sock_username = Some ''alice'', sock_room = Some ''main'', sock_rooms = [''main'']\<rparr>
   \<and> map_of (sockets (twoJoined (connection (connection init 1) 2) 1 2 ''main'' ''alice'')) 2
       = Some \<lparr>sock_username = Some ''alice'', sock_room = Some ''main'', sock_rooms = [''main'']\<rparr>
   \<and> getProp (users (twoJoined (connection (connection init 1) 2) 1 2 ''main'' ''alice'')) ''main'' = JArray [''alice'']
   \<and> disconnect (twoJoined (connection (connection init 1) 2) 1 2 ''main'' ''alice'') 1 =
       ((connection init 2)\<lparr>onlineUsers := [(''main'', [])],
          sockets := [(2, \<lparr>sock_username = Some ''alice'', sock_room = Some ''main'',
                           sock_rooms = [''main'']\<rparr>)]\<rparr>,
        [Emit (ToRoom ''main'') (OnlineUsers (JArray []))], None)
   \<and> recipients (fst (disconnect (twoJoined (connection (connection init 1) 2) 1 2 ''main'' ''alice'') 1))
        (Emit (ToRoom ''main'') (OnlineUsers (JArray []))) = [2]"
  using disconnect_removes_shared_username
      [of 1 2 "twoJoined (connection (connection init 1) 2) 1 2 ''main'' ''alice''"
          "\<lparr>sock_username = Some ''alice'', sock_room = Some ''main'', sock_rooms = [''main'']\<rparr>"
          "''main''" "''alice''"
          "\<lparr>sock_username = Some ''alice'', sock_room = Some ''main'', sock_rooms = [''main'']\<rparr>"
          "[''alice'']"]
  by (simp add: disconnect_def twoJoined_def joinRoom_def joinRoom_resume_def joinRoom_begin_def connection_def init_def
      presenceJoin_def getProp_def setProp_def users_def setUsers_def objectPrototypeNames_def
      Let_def Message_find_def inRoom_def connected_def)

text \<open>
  C10 as stated fails in three ways, each after sockets 1 and 2 have joined a room as
  alice. In the room with the empty name, socket 1 disconnects: the handler skips a
  falsy room, alice stays listed and nothing is emitted. In the room \<open>lobby\<close>, deleted
  before socket 1 disconnects: nothing is emitted. In the room \<open>main\<close>, socket 1 having
  then joined \<open>work\<close>: alice stays listed in \<open>main\<close> and the emission goes to \<open>work\<close>.
\<close>

theorem disconnect_removes_shared_username_counterexample:
  "inRoom (twoJoined (connection (connection init 1) 2) 1 2 [] ''alice'') [] 1
   \<and> inRoom (twoJoined (connection (connection init 1) 2) 1 2 [] ''alice'') [] 2
   \<and> getProp (users (twoJoined (connection (connection init 1) 2) 1 2 [] ''alice'')) [] = JArray [''alice'']
   \<and> snd (disconnect (twoJoined (connection (connection init 1) 2) 1 2 [] ''alice'') 1) = ([], None)
   \<and> getProp (users (fst (disconnect (twoJoined (connection (connection init 1) 2) 1 2 [] ''alice'') 1))) [] = JArray [''alice'']
   \<and> snd (disconnect (fst (deleteRoom (twoJoined (fst (postRooms (connection (connection init 1) 2)
        (Some ''lobby''))) 1 2 ''lobby'' ''alice'') ''lobby'')) 1) = ([], None)
   \<and> getProp (users (fst (disconnect (fst (joinRoom (twoJoined (connection (connection init 1) 2) 1 2 ''main'' ''alice'')
        1 ''work'' ''alice'' None)) 1))) ''main'' = JArray [''alice'']
   \<and> snd (disconnect (fst (joinRoom (twoJoined (connection (connection init 1) 2) 1 2 ''main'' ''alice'') 1 ''work'' ''alice'' None)) 1)
       = ([Emit (ToRoom ''work'') (OnlineUsers (JArray []))], None)"
  by (simp add: disconnect_def twoJoined_def postRooms_def deleteRoom_def deleteProp_def
      builtinRooms_def protectedRooms_def joinRoom_def joinRoom_resume_def joinRoom_begin_def connection_def init_def
      presenceJoin_def getProp_def setProp_def users_def setUsers_def objectPrototypeNames_def
      Let_def Message_find_def inRoom_def)

end
